theory Spec2Isabelle
  imports Complex_Main
begin

section \<open>The LLM example script: two runners and an entry point\<close>

text \<open>
  The script \<^verbatim>\<open>improved_llm_example.py\<close> has two functions, \<^verbatim>\<open>use_pipeline\<close> and
  \<^verbatim>\<open>use_direct_model\<close>, and a main block that runs them one after the other, each in its own
  \<^verbatim>\<open>try: ... except Exception as e: print(...)\<close>. Everything of substance is done by code
  outside the script (the \<^verbatim>\<open>transformers\<close> and \<^verbatim>\<open>torch\<close> libraries), so the embedding
  makes that code a parameter: an environment that answers each operation the script performs
  on an object it does not own, and that may answer with an exception. What the script does
  is recorded as a list of events, in the order in which they happen.
\<close>

subsection \<open>Values, exceptions, operations\<close>

text \<open>
  The Python values the script builds or inspects. \<open>PObj n\<close> is an object owned by the
  environment (a pipeline, a tokenizer, a model, a tensor, a bound method, ...). \<open>PFloat q\<close>
  stands for the float written as the decimal literal \<open>q\<close>; the script only passes it on.
  A \<open>PDict\<close> has string keys, listed in order; a lookup takes the first binding of a key.
\<close>

datatype pyval =
    PNone
  | PBool bool
  | PInt int
  | PFloat rat
  | PStr string
  | PList "pyval list"
  | PDict "(string \<times> pyval) list"
  | PObj nat

type_synonym kwargs = "(string \<times> pyval) list"

text \<open>
  An exception: the name of its class, whether that class derives from \<^verbatim>\<open>Exception\<close>
  (\<^verbatim>\<open>KeyboardInterrupt\<close>, \<^verbatim>\<open>SystemExit\<close> and \<^verbatim>\<open>GeneratorExit\<close> derive from
  \<^verbatim>\<open>BaseException\<close> only), and the text \<^verbatim>\<open>str(e)\<close>.
\<close>

datatype exn = Exn (exn_class: string) (isinstance_Exception: bool) (exn_str: string)

text \<open>The subscripts the script uses are the literals \<^verbatim>\<open>0\<close>, \<^verbatim>\<open>'generated_text'\<close> and \<^verbatim>\<open>"input_ids"\<close>.\<close>

datatype key = KInt int | KStr string

datatype op =
    ImportFrom string string          \<comment> \<open>\<^verbatim>\<open>from m import n\<close>\<close>
  | Import string                     \<comment> \<open>\<^verbatim>\<open>import m\<close>\<close>
  | GetAttr pyval string              \<comment> \<open>\<^verbatim>\<open>v.name\<close>\<close>
  | GetItem pyval key                 \<comment> \<open>\<^verbatim>\<open>v[k]\<close>\<close>
  | CallObj pyval "pyval list" kwargs \<comment> \<open>\<^verbatim>\<open>f(*args, **kwargs)\<close>\<close>

text \<open>
  An event is a line written by \<^verbatim>\<open>print\<close> (the text without the final newline), an
  operation together with its answer, or entering or leaving \<^verbatim>\<open>torch.no_grad()\<close>.
\<close>

datatype event =
    Print string
  | Op op "exn + pyval"
  | NoGradEnter
  | NoGradExit

text \<open>
  The environment, with a state of its own of type \<open>'w\<close>. \<open>respond\<close> answers an operation
  on an object of the environment; \<open>str_of\<close> is \<^verbatim>\<open>str(v)\<close> for a value that is not a
  \<^verbatim>\<open>str\<close> and \<open>repr_of\<close> is \<^verbatim>\<open>repr(v)\<close>, both taken to return. \<open>no_grad_enter\<close> and
  \<open>no_grad_exit\<close> are what entering and leaving torch's \<^verbatim>\<open>no_grad\<close> context manager do to
  that state; as in torch, they do not raise and leaving does not swallow an exception.
  \<^verbatim>\<open>print\<close> is taken to succeed.
\<close>

record 'w env =
  respond :: "op \<Rightarrow> 'w \<Rightarrow> (exn + pyval) \<times> 'w"
  str_of :: "pyval \<Rightarrow> string"
  repr_of :: "pyval \<Rightarrow> string"
  no_grad_enter :: "'w \<Rightarrow> 'w"
  no_grad_exit :: "'w \<Rightarrow> 'w"

text \<open>The names the module binds by its imports from \<^verbatim>\<open>transformers\<close>.\<close>

record globals =
  pipeline :: pyval
  AutoTokenizer :: pyval
  AutoModelForCausalLM :: pyval

subsection \<open>Python's own semantics of the operations\<close>

definition type_name :: "pyval \<Rightarrow> string" where
  "type_name v =
     (case v of
        PNone \<Rightarrow> ''NoneType''
      | PBool _ \<Rightarrow> ''bool''
      | PInt _ \<Rightarrow> ''int''
      | PFloat _ \<Rightarrow> ''float''
      | PStr _ \<Rightarrow> ''str''
      | PList _ \<Rightarrow> ''list''
      | PDict _ \<Rightarrow> ''dict''
      | PObj _ \<Rightarrow> ''object'')"

definition IndexError :: "string \<Rightarrow> exn" where
  "IndexError msg = Exn ''IndexError'' True msg"

definition KeyError :: "string \<Rightarrow> exn" where
  "KeyError msg = Exn ''KeyError'' True msg"

definition TypeError :: "string \<Rightarrow> exn" where
  "TypeError msg = Exn ''TypeError'' True msg"

definition AttributeError :: "string \<Rightarrow> exn" where
  "AttributeError msg = Exn ''AttributeError'' True msg"

text \<open>Indexing a sequence with an integer: a negative index counts from the end.\<close>

definition seq_index :: "'a list \<Rightarrow> int \<Rightarrow> 'a option" where
  "seq_index xs i =
     (let n = int (length xs); j = (if i < 0 then i + n else i)
      in if 0 \<le> j \<and> j < n then Some (xs ! nat j) else None)"

text \<open>
  \<^verbatim>\<open>v[k]\<close> for a value that is not an object of the environment. The messages are
  CPython's (3.11 and later).
\<close>

definition native_getitem :: "'w env \<Rightarrow> pyval \<Rightarrow> key \<Rightarrow> exn + pyval" where
  "native_getitem L v k =
     (case v of
        PList xs \<Rightarrow>
          (case k of
             KInt i \<Rightarrow>
               (case seq_index xs i of
                  Some x \<Rightarrow> Inr x
                | None \<Rightarrow> Inl (IndexError ''list index out of range''))
           | KStr _ \<Rightarrow> Inl (TypeError ''list indices must be integers or slices, not str''))
      | PStr s \<Rightarrow>
          (case k of
             KInt i \<Rightarrow>
               (case seq_index s i of
                  Some c \<Rightarrow> Inr (PStr [c])
                | None \<Rightarrow> Inl (IndexError ''string index out of range''))
           | KStr _ \<Rightarrow> Inl (TypeError (''string indices must be integers, not '' @ [CHR 0x27] @ ''str'' @ [CHR 0x27])))
      | PDict d \<Rightarrow>
          (case k of
             KInt i \<Rightarrow> Inl (KeyError (repr_of L (PInt i)))
           | KStr s \<Rightarrow>
               (case map_of d s of
                  Some x \<Rightarrow> Inr x
                | None \<Rightarrow> Inl (KeyError (repr_of L (PStr s)))))
      | _ \<Rightarrow> Inl (TypeError ([CHR 0x27] @ type_name v @ [CHR 0x27] @ '' object is not subscriptable'')))"

text \<open>
  The answer to an operation: the environment's for an import and for an operation on one of
  its objects, Python's own otherwise. None of the built-in types modelled here is callable or
  has one of the attributes the script reads (\<^verbatim>\<open>from_pretrained\<close>, \<^verbatim>\<open>generate\<close>,
  \<^verbatim>\<open>eos_token_id\<close>, \<^verbatim>\<open>decode\<close>).
\<close>

definition answer :: "'w env \<Rightarrow> op \<Rightarrow> 'w \<Rightarrow> (exn + pyval) \<times> 'w" where
  "answer L opn w =
     (case opn of
        ImportFrom _ _ \<Rightarrow> respond L opn w
      | Import _ \<Rightarrow> respond L opn w
      | GetAttr (PObj _) _ \<Rightarrow> respond L opn w
      | GetAttr v a \<Rightarrow>
          (Inl (AttributeError ([CHR 0x27] @ type_name v @ [CHR 0x27] @ '' object has no attribute ''
                                @ [CHR 0x27] @ a @ [CHR 0x27])), w)
      | GetItem (PObj _) _ \<Rightarrow> respond L opn w
      | GetItem v k \<Rightarrow> (native_getitem L v k, w)
      | CallObj (PObj _) _ _ \<Rightarrow> respond L opn w
      | CallObj f _ _ \<Rightarrow>
          (Inl (TypeError ([CHR 0x27] @ type_name f @ [CHR 0x27] @ '' object is not callable'')), w))"

subsection \<open>Running statements\<close>

text \<open>
  A statement or expression runs in a state of the environment. It raises (\<open>Inl\<close>) or
  yields a value (\<open>Inr\<close>), and gives the events it caused, in order, and the new state.
\<close>

type_synonym ('w, 'a) prog = "'w \<Rightarrow> (exn + 'a) \<times> event list \<times> 'w"

definition ret :: "'a \<Rightarrow> ('w, 'a) prog" where
  "ret x w = (Inr x, [], w)"

text \<open>Sequencing: what follows a statement that raises is not run.\<close>

definition and_then :: "('w, 'a) prog \<Rightarrow> ('a \<Rightarrow> ('w, 'b) prog) \<Rightarrow> ('w, 'b) prog" where
  "and_then m f w =
     (case m w of
        (Inl e, evs, w') \<Rightarrow> (Inl e, evs, w')
      | (Inr x, evs, w') \<Rightarrow> (case f x w' of (r, evs', w'') \<Rightarrow> (r, evs @ evs', w'')))"

definition perform :: "'w env \<Rightarrow> op \<Rightarrow> ('w, pyval) prog" where
  "perform L opn w = (case answer L opn w of (r, w') \<Rightarrow> (r, [Op opn r], w'))"

text \<open>\<^verbatim>\<open>str(v)\<close>, as \<^verbatim>\<open>print\<close> applies it to an argument.\<close>

definition py_str :: "'w env \<Rightarrow> pyval \<Rightarrow> string" where
  "py_str L v = (case v of PStr s \<Rightarrow> s | _ \<Rightarrow> str_of L v)"

fun join_sp :: "string list \<Rightarrow> string" where
  "join_sp [] = []"
| "join_sp [x] = x"
| "join_sp (x # y # ys) = x @ '' '' @ join_sp (y # ys)"

text \<open>\<^verbatim>\<open>print(a, b, ...)\<close>: the arguments' texts joined by single spaces, as one line.\<close>

definition py_print :: "string list \<Rightarrow> ('w, unit) prog" where
  "py_print args w = (Inr (), [Print (join_sp args)], w)"

text \<open>The text on standard output: every printed line followed by a newline.\<close>

fun stdout_text :: "event list \<Rightarrow> string" where
  "stdout_text [] = []"
| "stdout_text (Print t # evs) = t @ ''\<newline>'' @ stdout_text evs"
| "stdout_text (_ # evs) = stdout_text evs"

text \<open>
  \<^verbatim>\<open>with torch.no_grad(): body\<close>. The context is left on both exits of the body, and an
  exception of the body is raised again after that.
\<close>

definition with_no_grad :: "'w env \<Rightarrow> ('w, 'a) prog \<Rightarrow> ('w, 'a) prog" where
  "with_no_grad L body w =
     (case body (no_grad_enter L w) of
        (r, evs, w') \<Rightarrow> (r, NoGradEnter # evs @ [NoGradExit], no_grad_exit L w'))"

text \<open>
  \<^verbatim>\<open>try: body  except Exception as e: handler\<close>: an exception is handled when its class
  derives from \<^verbatim>\<open>Exception\<close>, and propagates otherwise.
\<close>

definition try_except_Exception ::
  "('w, unit) prog \<Rightarrow> (exn \<Rightarrow> ('w, unit) prog) \<Rightarrow> ('w, unit) prog" where
  "try_except_Exception body handler w =
     (case body w of
        (Inl e, evs, w') \<Rightarrow>
          if isinstance_Exception e
          then (case handler e w' of (r, evs', w'') \<Rightarrow> (r, evs @ evs', w''))
          else (Inl e, evs, w')
      | (Inr x, evs, w') \<Rightarrow> (Inr x, evs, w'))"

subsection \<open>The script\<close>

text \<open>\<^verbatim>\<open>use_pipeline\<close>, lines 5 to 18.\<close>

definition use_pipeline :: "globals \<Rightarrow> 'w env \<Rightarrow> ('w, unit) prog" where
  "use_pipeline G L =
     and_then (py_print [''=== Pipeline-Ansatz ===''])
     (\<lambda>_. let messages = PList [PDict [(''role'', PStr ''user''), (''content'', PStr ''Who are you?'')]] in
     and_then (perform L (CallObj (pipeline G) [PStr ''text-generation'']
                 [(''model'', PStr ''unsloth/DeepSeek-R1-Distill-Llama-8B'')]))
     (\<lambda>pipe.
     and_then (perform L (CallObj pipe [messages]
                 [(''max_length'', PInt 100), (''do_sample'', PBool True), (''temperature'', PFloat (7 / 10))]))
     (\<lambda>result.
     and_then (py_print [''Ergebnis:''])
     (\<lambda>_.
     and_then (perform L (GetItem result (KInt 0)))
     (\<lambda>first.
     and_then (perform L (GetItem first (KStr ''generated_text'')))
     (\<lambda>generated_text.
     and_then (py_print [py_str L generated_text])
     (\<lambda>_. py_print [''\<newline>''])))))))"

text \<open>
  \<^verbatim>\<open>use_direct_model\<close>, lines 25 to 49. In the call of \<^verbatim>\<open>model.generate\<close> Python reads the
  attribute first, then evaluates the positional argument, then the keyword arguments, and
  then calls; likewise for \<^verbatim>\<open>tokenizer.decode\<close>.
\<close>

definition use_direct_model :: "globals \<Rightarrow> 'w env \<Rightarrow> ('w, unit) prog" where
  "use_direct_model G L =
     and_then (py_print [''=== Direkter Modell-Ansatz ===''])
     (\<lambda>_.
     and_then (perform L (GetAttr (AutoTokenizer G) ''from_pretrained''))
     (\<lambda>load_tokenizer.
     and_then (perform L (CallObj load_tokenizer [PStr ''unsloth/DeepSeek-R1-Distill-Llama-8B''] []))
     (\<lambda>tokenizer.
     and_then (perform L (GetAttr (AutoModelForCausalLM G) ''from_pretrained''))
     (\<lambda>load_model.
     and_then (perform L (CallObj load_model [PStr ''unsloth/DeepSeek-R1-Distill-Llama-8B''] []))
     (\<lambda>model. let prompt = ''Who are you?'' in
     and_then (perform L (CallObj tokenizer [PStr prompt] [(''return_tensors'', PStr ''pt'')]))
     (\<lambda>inputs.
     and_then (with_no_grad L
       (and_then (perform L (GetAttr model ''generate''))
        (\<lambda>generate.
        and_then (perform L (GetItem inputs (KStr ''input_ids'')))
        (\<lambda>input_ids.
        and_then (perform L (GetAttr tokenizer ''eos_token_id''))
        (\<lambda>eos_token_id.
        perform L (CallObj generate [input_ids]
          [(''max_length'', PInt 100), (''do_sample'', PBool True), (''temperature'', PFloat (7 / 10)),
           (''pad_token_id'', eos_token_id)]))))))
     (\<lambda>output.
     and_then (perform L (GetAttr tokenizer ''decode''))
     (\<lambda>decode.
     and_then (perform L (GetItem output (KInt 0)))
     (\<lambda>first.
     and_then (perform L (CallObj decode [first] [(''skip_special_tokens'', PBool True)]))
     (\<lambda>generated_text.
     and_then (py_print [''Eingabe:'', prompt])
     (\<lambda>_. py_print [''Generierte Antwort:'', py_str L generated_text])))))))))))"

text \<open>The body of \<^verbatim>\<open>if __name__ == "__main__":\<close>, lines 53 to 64.\<close>

definition main_block :: "globals \<Rightarrow> 'w env \<Rightarrow> ('w, unit) prog" where
  "main_block G L =
     and_then (py_print [''LLM-Beispiel mit DeepSeek-R1-Distill-Llama-8B\<newline>''])
     (\<lambda>_.
     and_then (try_except_Exception (use_pipeline G L)
                 (\<lambda>e. py_print [''Fehler beim Pipeline-Ansatz: '' @ exn_str e]))
     (\<lambda>_. try_except_Exception (use_direct_model G L)
                 (\<lambda>e. py_print [''Fehler beim direkten Modell-Ansatz: '' @ exn_str e])))"

text \<open>
  The module as a whole, run with \<^verbatim>\<open>__name__\<close> set to \<open>name\<close> in a process with the argument
  vector \<open>argv\<close> and the environment variables \<open>environ\<close>: the imports of lines 2, 22 and 23
  (line 22 imports two names, one operation each), the two function definitions (which only
  bind names), and the main block under its guard. An import that fails ends the module body.
  The script reads neither \<open>argv\<close> nor \<open>environ\<close>.
\<close>

definition run_module ::
  "'w env \<Rightarrow> string \<Rightarrow> string list \<Rightarrow> (string \<times> string) list \<Rightarrow> ('w, unit) prog" where
  "run_module L name argv environ =
     and_then (perform L (ImportFrom ''transformers'' ''pipeline''))
     (\<lambda>p.
     and_then (perform L (ImportFrom ''transformers'' ''AutoTokenizer''))
     (\<lambda>t.
     and_then (perform L (ImportFrom ''transformers'' ''AutoModelForCausalLM''))
     (\<lambda>m.
     and_then (perform L (Import ''torch''))
     (\<lambda>_.
     if name = ''__main__''
     then main_block \<lparr>pipeline = p, AutoTokenizer = t, AutoModelForCausalLM = m\<rparr> L
     else ret ()))))"

subsection \<open>Reading a list of events\<close>



text \<open>The operations of a run, in the order in which they were performed.\<close>

fun performed :: "event list \<Rightarrow> op list" where
  "performed [] = []"
| "performed (Op opn a # evs) = opn # performed evs"
| "performed (_ # evs) = performed evs"

subsection \<open>Stub environments\<close>

text \<open>
  An environment without state that answers from a table, as a test double of the libraries
  does, and fails on an operation the table does not list. An earlier entry of the table
  overrides a later one.
\<close>

definition table_env :: "(op \<times> (exn + pyval)) list \<Rightarrow> unit env" where
  "table_env t =
     \<lparr>respond = (\<lambda>opn w.
        (case map_of t opn of
           Some a \<Rightarrow> a
         | None \<Rightarrow> Inl (Exn ''AssertionError'' True ''unexpected operation''), w)),
      str_of = (\<lambda>_. ''<object>''),
      repr_of = (\<lambda>_. ''<object>''),
      no_grad_enter = (\<lambda>w. w),
      no_grad_exit = (\<lambda>w. w)\<rparr>"

text \<open>
  The stubs: object 0 is \<^verbatim>\<open>pipeline\<close>, 1 \<^verbatim>\<open>AutoTokenizer\<close>, 2 \<^verbatim>\<open>AutoModelForCausalLM\<close>,
  3 the pipeline object, 4 and 6 the two \<^verbatim>\<open>from_pretrained\<close> methods, 5 the tokenizer, 7 the
  model, 8 and 9 the tensors of the encoded prompt, 10 \<^verbatim>\<open>model.generate\<close>,
  11 \<^verbatim>\<open>tokenizer.decode\<close>, 12 the module \<^verbatim>\<open>torch\<close>.
\<close>

definition stub_globals :: globals where
  "stub_globals = \<lparr>pipeline = PObj 0, AutoTokenizer = PObj 1, AutoModelForCausalLM = PObj 2\<rparr>"

definition stub_table :: "(op \<times> (exn + pyval)) list" where
  "stub_table =
     [(ImportFrom ''transformers'' ''pipeline'', Inr (PObj 0)),
      (ImportFrom ''transformers'' ''AutoTokenizer'', Inr (PObj 1)),
      (ImportFrom ''transformers'' ''AutoModelForCausalLM'', Inr (PObj 2)),
      (Import ''torch'', Inr (PObj 12)),
      (CallObj (PObj 0) [PStr ''text-generation'']
         [(''model'', PStr ''unsloth/DeepSeek-R1-Distill-Llama-8B'')], Inr (PObj 3)),
      (CallObj (PObj 3) [PList [PDict [(''role'', PStr ''user''), (''content'', PStr ''Who are you?'')]]]
         [(''max_length'', PInt 100), (''do_sample'', PBool True), (''temperature'', PFloat (7 / 10))],
       Inr (PList [PDict [(''generated_text'', PStr ''A stub.'')]])),
      (GetAttr (PObj 1) ''from_pretrained'', Inr (PObj 4)),
      (CallObj (PObj 4) [PStr ''unsloth/DeepSeek-R1-Distill-Llama-8B''] [], Inr (PObj 5)),
      (GetAttr (PObj 2) ''from_pretrained'', Inr (PObj 6)),
      (CallObj (PObj 6) [PStr ''unsloth/DeepSeek-R1-Distill-Llama-8B''] [], Inr (PObj 7)),
      (CallObj (PObj 5) [PStr ''Who are you?''] [(''return_tensors'', PStr ''pt'')],
       Inr (PDict [(''input_ids'', PObj 8), (''attention_mask'', PObj 9)])),
      (GetAttr (PObj 7) ''generate'', Inr (PObj 10)),
      (GetAttr (PObj 5) ''eos_token_id'', Inr (PInt 2)),
      (CallObj (PObj 10) [PObj 8]
         [(''max_length'', PInt 100), (''do_sample'', PBool True), (''temperature'', PFloat (7 / 10)),
          (''pad_token_id'', PInt 2)],
       Inr (PList [PList [PInt 1, PInt 2]])),
      (GetAttr (PObj 5) ''decode'', Inr (PObj 11)),
      (CallObj (PObj 11) [PList [PInt 1, PInt 2]] [(''skip_special_tokens'', PBool True)],
       Inr (PStr ''A stub.''))]"

text \<open>The events of the two runners when they run against the stubs.\<close>

definition stub_pipeline_events :: "event list" where
  "stub_pipeline_events =
     [Print ''=== Pipeline-Ansatz ==='',
      Op (CallObj (PObj 0) [PStr ''text-generation'']
            [(''model'', PStr ''unsloth/DeepSeek-R1-Distill-Llama-8B'')]) (Inr (PObj 3)),
      Op (CallObj (PObj 3) [PList [PDict [(''role'', PStr ''user''), (''content'', PStr ''Who are you?'')]]]
            [(''max_length'', PInt 100), (''do_sample'', PBool True), (''temperature'', PFloat (7 / 10))])
         (Inr (PList [PDict [(''generated_text'', PStr ''A stub.'')]])),
      Print ''Ergebnis:'',
      Op (GetItem (PList [PDict [(''generated_text'', PStr ''A stub.'')]]) (KInt 0))
         (Inr (PDict [(''generated_text'', PStr ''A stub.'')])),
      Op (GetItem (PDict [(''generated_text'', PStr ''A stub.'')]) (KStr ''generated_text''))
         (Inr (PStr ''A stub.'')),
      Print ''A stub.'',
      Print ''\<newline>'']"

definition stub_direct_events :: "event list" where
  "stub_direct_events =
     [Print ''=== Direkter Modell-Ansatz ==='',
      Op (GetAttr (PObj 1) ''from_pretrained'') (Inr (PObj 4)),
      Op (CallObj (PObj 4) [PStr ''unsloth/DeepSeek-R1-Distill-Llama-8B''] []) (Inr (PObj 5)),
      Op (GetAttr (PObj 2) ''from_pretrained'') (Inr (PObj 6)),
      Op (CallObj (PObj 6) [PStr ''unsloth/DeepSeek-R1-Distill-Llama-8B''] []) (Inr (PObj 7)),
      Op (CallObj (PObj 5) [PStr ''Who are you?''] [(''return_tensors'', PStr ''pt'')])
         (Inr (PDict [(''input_ids'', PObj 8), (''attention_mask'', PObj 9)])),
      NoGradEnter,
      Op (GetAttr (PObj 7) ''generate'') (Inr (PObj 10)),
      Op (GetItem (PDict [(''input_ids'', PObj 8), (''attention_mask'', PObj 9)]) (KStr ''input_ids''))
         (Inr (PObj 8)),
      Op (GetAttr (PObj 5) ''eos_token_id'') (Inr (PInt 2)),
      Op (CallObj (PObj 10) [PObj 8]
            [(''max_length'', PInt 100), (''do_sample'', PBool True), (''temperature'', PFloat (7 / 10)),
             (''pad_token_id'', PInt 2)])
         (Inr (PList [PList [PInt 1, PInt 2]])),
      NoGradExit,
      Op (GetAttr (PObj 5) ''decode'') (Inr (PObj 11)),
      Op (GetItem (PList [PList [PInt 1, PInt 2]]) (KInt 0)) (Inr (PList [PInt 1, PInt 2])),
      Op (CallObj (PObj 11) [PList [PInt 1, PInt 2]] [(''skip_special_tokens'', PBool True)])
         (Inr (PStr ''A stub.'')),
      Print ''Eingabe: Who are you?'',
      Print ''Generierte Antwort: A stub.'']"

section \<open>Properties\<close>

subsection \<open>Stepping through a run\<close>

text \<open>
  One rule for each way a statement of the script can begin: an operation either answers with
  an exception, and the run ends there, or answers with a value, and the rest runs; a
  \<^verbatim>\<open>print\<close> is followed by the rest; the \<^verbatim>\<open>with\<close> block wraps the events of its body.
\<close>

lemma and_then_performE:
  assumes "and_then (perform L opn) f w = (r, evs, w')"
  obtains (fails) e where "r = Inl e" "evs = [Op opn (Inl e)]"
        | (answers) x w1 evs1 where "f x w1 = (r, evs1, w')" "evs = Op opn (Inr x) # evs1"
  using assms
  by (auto simp: and_then_def perform_def split: prod.splits sum.splits)

lemma and_then_printE:
  assumes "and_then (py_print args) f w = (r, evs, w')"
  obtains evs1 where "f () w = (r, evs1, w')" "evs = Print (join_sp args) # evs1"
  using assms
  by (auto simp: and_then_def py_print_def split: prod.splits sum.splits)

lemma performE:
  assumes "perform L opn w = (r, evs, w')"
  obtains "evs = [Op opn r]"
  using assms
  by (auto simp: perform_def split: prod.splits)

lemma printE:
  assumes "py_print args w = (r, evs, w')"
  obtains "r = Inr ()" "evs = [Print (join_sp args)]"
  using assms
  by (auto simp: py_print_def)

lemma and_then_with_no_gradE:
  assumes "and_then (with_no_grad L body) f w = (r, evs, w')"
  obtains (fails) e evb wb where "body (no_grad_enter L w) = (Inl e, evb, wb)" "r = Inl e"
            "evs = NoGradEnter # evb @ [NoGradExit]"
        | (answers) x evb wb evs1 where "body (no_grad_enter L w) = (Inr x, evb, wb)"
            "f x (no_grad_exit L wb) = (r, evs1, w')" "evs = NoGradEnter # evb @ NoGradExit # evs1"
  using assms
  by (auto simp: and_then_def with_no_grad_def split: prod.splits sum.splits)

lemmas stepE = and_then_performE and_then_printE and_then_with_no_gradE performE printE

subsection \<open>The runners against the stubs\<close>

lemmas run_defs = and_then_def perform_def py_print_def with_no_grad_def answer_def
  native_getitem_def seq_index_def py_str_def Let_def

lemmas stub_defs = stub_globals_def table_env_def stub_table_def

lemma stub_use_pipeline:
  "use_pipeline stub_globals (table_env stub_table) () = (Inr (), stub_pipeline_events, ())"
  by (simp add: use_pipeline_def run_defs stub_defs stub_pipeline_events_def)

lemma stub_use_direct_model:
  "use_direct_model stub_globals (table_env stub_table) () = (Inr (), stub_direct_events, ())"
  by (simp add: use_direct_model_def run_defs stub_defs stub_direct_events_def)




subsection \<open>The entry point\<close>

text \<open>
  What the main block does, for any outcome of the two runners: the header, the events of
  \<^verbatim>\<open>use_pipeline\<close>, its error message when it raised an instance of \<^verbatim>\<open>Exception\<close>, and
  then, unless the first exception propagated, the same for \<^verbatim>\<open>use_direct_model\<close>, which
  starts in the state in which \<^verbatim>\<open>use_pipeline\<close> left the environment.
\<close>

lemma main_block_handled:
  assumes "use_pipeline G L w = (r1, evs1, w1)"
      and "use_direct_model G L w1 = (r2, evs2, w2)"
      and "\<forall>e. r1 = Inl e \<longrightarrow> isinstance_Exception e"
  shows "main_block G L w =
     ((case r2 of Inl e \<Rightarrow> if isinstance_Exception e then Inr () else Inl e | Inr u \<Rightarrow> Inr u),
      Print ''LLM-Beispiel mit DeepSeek-R1-Distill-Llama-8B\<newline>'' # evs1
        @ (case r1 of Inl e \<Rightarrow> [Print (''Fehler beim Pipeline-Ansatz: '' @ exn_str e)] | Inr _ \<Rightarrow> [])
        @ evs2
        @ (case r2 of
             Inl e \<Rightarrow>
               if isinstance_Exception e
               then [Print (''Fehler beim direkten Modell-Ansatz: '' @ exn_str e)] else []
           | Inr _ \<Rightarrow> []),
      w2)"
  using assms
  by (simp add: main_block_def and_then_def try_except_Exception_def py_print_def
           split: sum.splits)

lemma main_block_propagates:
  assumes "use_pipeline G L w = (Inl e, evs1, w1)" and "\<not> isinstance_Exception e"
  shows "main_block G L w =
     (Inl e, Print ''LLM-Beispiel mit DeepSeek-R1-Distill-Llama-8B\<newline>'' # evs1, w1)"
  using assms
  by (simp add: main_block_def and_then_def try_except_Exception_def py_print_def)

text \<open>
  C1, as stated, fails: \<^verbatim>\<open>except Exception\<close> does not catch an exception whose class derives
  from \<^verbatim>\<open>BaseException\<close> only. When the call of \<^verbatim>\<open>pipeline\<close> raises \<^verbatim>\<open>KeyboardInterrupt\<close>
  the main block raises it too, prints no message, and never calls \<^verbatim>\<open>use_direct_model\<close>.
\<close>

theorem main_block_keyboard_interrupt_counterexample:
  "main_block stub_globals
     (table_env
        ((CallObj (PObj 0) [PStr ''text-generation'']
            [(''model'', PStr ''unsloth/DeepSeek-R1-Distill-Llama-8B'')],
          Inl (Exn ''KeyboardInterrupt'' False '''')) # stub_table)) ()
   = (Inl (Exn ''KeyboardInterrupt'' False ''''),
      [Print ''LLM-Beispiel mit DeepSeek-R1-Distill-Llama-8B\<newline>'',
       Print ''=== Pipeline-Ansatz ==='',
       Op (CallObj (PObj 0) [PStr ''text-generation'']
             [(''model'', PStr ''unsloth/DeepSeek-R1-Distill-Llama-8B'')])
          (Inl (Exn ''KeyboardInterrupt'' False ''''))],
      ())"
proof -
  have "use_pipeline stub_globals
     (table_env
        ((CallObj (PObj 0) [PStr ''text-generation'']
            [(''model'', PStr ''unsloth/DeepSeek-R1-Distill-Llama-8B'')],
          Inl (Exn ''KeyboardInterrupt'' False '''')) # stub_table)) ()
   = (Inl (Exn ''KeyboardInterrupt'' False ''''),
      [Print ''=== Pipeline-Ansatz ==='',
       Op (CallObj (PObj 0) [PStr ''text-generation'']
             [(''model'', PStr ''unsloth/DeepSeek-R1-Distill-Llama-8B'')])
          (Inl (Exn ''KeyboardInterrupt'' False ''''))],
      ())"
    by (simp add: use_pipeline_def run_defs stub_globals_def table_env_def)
  from main_block_propagates [OF this] show ?thesis by simp
qed

text \<open>
  C1, amended: the main block runs \<^verbatim>\<open>use_pipeline\<close> first and \<^verbatim>\<open>use_direct_model\<close> second,
  and for every exception raised by \<^verbatim>\<open>use_pipeline\<close> that is an instance of \<^verbatim>\<open>Exception\<close>,
  the exception is caught, the message \<^verbatim>\<open>Fehler beim Pipeline-Ansatz: <str(e)>\<close> is printed,
  and \<^verbatim>\<open>use_direct_model\<close> is run afterwards: the events of the main block are the header,
  the events of \<^verbatim>\<open>use_pipeline\<close>, the message if it raised, and then the events of
  \<^verbatim>\<open>use_direct_model\<close>, followed by nothing but that runner's own error message.
\<close>

theorem main_block_runs_direct_model_after_pipeline:
  assumes "use_pipeline G L w = (r1, evs1, w1)"
      and "\<forall>e. r1 = Inl e \<longrightarrow> isinstance_Exception e"
  shows "main_block G L w =
     (case use_direct_model G L w1 of
        (r2, evs2, w2) \<Rightarrow>
          ((case r2 of Inl e \<Rightarrow> if isinstance_Exception e then Inr () else Inl e | Inr u \<Rightarrow> Inr u),
           Print ''LLM-Beispiel mit DeepSeek-R1-Distill-Llama-8B\<newline>'' # evs1
             @ (case r1 of
                  Inl e \<Rightarrow> [Print (''Fehler beim Pipeline-Ansatz: '' @ exn_str e)]
                | Inr _ \<Rightarrow> [])
             @ evs2
             @ (case r2 of
                  Inl e \<Rightarrow>
                    if isinstance_Exception e
                    then [Print (''Fehler beim direkten Modell-Ansatz: '' @ exn_str e)] else []
                | Inr _ \<Rightarrow> []),
           w2))"
proof (cases "use_direct_model G L w1")
  case (fields r2 evs2 w2)
  from main_block_handled [OF assms(1) fields assms(2)] fields show ?thesis
    by simp
qed

theorem main_block_runs_direct_model_after_pipeline_witness:
  "use_pipeline stub_globals
     (table_env
        ((CallObj (PObj 0) [PStr ''text-generation'']
            [(''model'', PStr ''unsloth/DeepSeek-R1-Distill-Llama-8B'')],
          Inl (Exn ''OSError'' True ''no such model'')) # stub_table)) ()
   = (Inl (Exn ''OSError'' True ''no such model''),
      [Print ''=== Pipeline-Ansatz ==='',
       Op (CallObj (PObj 0) [PStr ''text-generation'']
             [(''model'', PStr ''unsloth/DeepSeek-R1-Distill-Llama-8B'')])
          (Inl (Exn ''OSError'' True ''no such model''))],
      ())
   \<and> isinstance_Exception (Exn ''OSError'' True ''no such model'')
   \<and> main_block stub_globals
     (table_env
        ((CallObj (PObj 0) [PStr ''text-generation'']
            [(''model'', PStr ''unsloth/DeepSeek-R1-Distill-Llama-8B'')],
          Inl (Exn ''OSError'' True ''no such model'')) # stub_table)) ()
   = (Inr (),
      [Print ''LLM-Beispiel mit DeepSeek-R1-Distill-Llama-8B\<newline>'',
       Print ''=== Pipeline-Ansatz ==='',
       Op (CallObj (PObj 0) [PStr ''text-generation'']
             [(''model'', PStr ''unsloth/DeepSeek-R1-Distill-Llama-8B'')])
          (Inl (Exn ''OSError'' True ''no such model'')),
       Print ''Fehler beim Pipeline-Ansatz: no such model''] @ stub_direct_events,
      ())"
proof -
  let ?L = "table_env
        ((CallObj (PObj 0) [PStr ''text-generation'']
            [(''model'', PStr ''unsloth/DeepSeek-R1-Distill-Llama-8B'')],
          Inl (Exn ''OSError'' True ''no such model'')) # stub_table)"
  let ?evs1 = "[Print ''=== Pipeline-Ansatz ==='',
       Op (CallObj (PObj 0) [PStr ''text-generation'']
             [(''model'', PStr ''unsloth/DeepSeek-R1-Distill-Llama-8B'')])
          (Inl (Exn ''OSError'' True ''no such model''))]"
  have p: "use_pipeline stub_globals ?L () = (Inl (Exn ''OSError'' True ''no such model''), ?evs1, ())"
    by (simp add: use_pipeline_def run_defs stub_globals_def table_env_def)
  have d: "use_direct_model stub_globals ?L () = (Inr (), stub_direct_events, ())"
    by (simp add: use_direct_model_def run_defs stub_defs stub_direct_events_def)
  have h: "\<forall>e. (Inl (Exn ''OSError'' True ''no such model'') :: exn + unit) = Inl e \<longrightarrow> isinstance_Exception e"
    by simp
  from main_block_runs_direct_model_after_pipeline [OF p h] p d show ?thesis
    by simp
qed

text \<open>
  C2, as stated, fails for the same reason: when \<^verbatim>\<open>use_pipeline\<close> raises \<^verbatim>\<open>OSError\<close> and
  the loading of the tokenizer in \<^verbatim>\<open>use_direct_model\<close> raises \<^verbatim>\<open>KeyboardInterrupt\<close>, the
  first is caught and reported and the second leaves the main block, with no message.
\<close>

theorem main_block_second_interrupt_counterexample:
  "main_block stub_globals
     (table_env
        ((CallObj (PObj 0) [PStr ''text-generation'']
            [(''model'', PStr ''unsloth/DeepSeek-R1-Distill-Llama-8B'')],
          Inl (Exn ''OSError'' True ''no such model''))
         # (CallObj (PObj 4) [PStr ''unsloth/DeepSeek-R1-Distill-Llama-8B''] [],
            Inl (Exn ''KeyboardInterrupt'' False ''''))
         # stub_table)) ()
   = (Inl (Exn ''KeyboardInterrupt'' False ''''),
      [Print ''LLM-Beispiel mit DeepSeek-R1-Distill-Llama-8B\<newline>'',
       Print ''=== Pipeline-Ansatz ==='',
       Op (CallObj (PObj 0) [PStr ''text-generation'']
             [(''model'', PStr ''unsloth/DeepSeek-R1-Distill-Llama-8B'')])
          (Inl (Exn ''OSError'' True ''no such model'')),
       Print ''Fehler beim Pipeline-Ansatz: no such model'',
       Print ''=== Direkter Modell-Ansatz ==='',
       Op (GetAttr (PObj 1) ''from_pretrained'') (Inr (PObj 4)),
       Op (CallObj (PObj 4) [PStr ''unsloth/DeepSeek-R1-Distill-Llama-8B''] [])
          (Inl (Exn ''KeyboardInterrupt'' False ''''))],
      ())"
proof -
  let ?L = "table_env
        ((CallObj (PObj 0) [PStr ''text-generation'']
            [(''model'', PStr ''unsloth/DeepSeek-R1-Distill-Llama-8B'')],
          Inl (Exn ''OSError'' True ''no such model''))
         # (CallObj (PObj 4) [PStr ''unsloth/DeepSeek-R1-Distill-Llama-8B''] [],
            Inl (Exn ''KeyboardInterrupt'' False ''''))
         # stub_table)"
  have p: "use_pipeline stub_globals ?L () =
     (Inl (Exn ''OSError'' True ''no such model''),
      [Print ''=== Pipeline-Ansatz ==='',
       Op (CallObj (PObj 0) [PStr ''text-generation'']
             [(''model'', PStr ''unsloth/DeepSeek-R1-Distill-Llama-8B'')])
          (Inl (Exn ''OSError'' True ''no such model''))],
      ())"
    by (simp add: use_pipeline_def run_defs stub_globals_def table_env_def)
  have d: "use_direct_model stub_globals ?L () =
     (Inl (Exn ''KeyboardInterrupt'' False ''''),
      [Print ''=== Direkter Modell-Ansatz ==='',
       Op (GetAttr (PObj 1) ''from_pretrained'') (Inr (PObj 4)),
       Op (CallObj (PObj 4) [PStr ''unsloth/DeepSeek-R1-Distill-Llama-8B''] [])
          (Inl (Exn ''KeyboardInterrupt'' False ''''))],
      ())"
    by (simp add: use_direct_model_def run_defs stub_defs)
  from main_block_handled [OF p d] show ?thesis by simp
qed

text \<open>
  C2, amended: for every pair of exceptions raised by the two runners that are both instances
  of \<^verbatim>\<open>Exception\<close>, the main block catches both, prints an error message for each, and ends
  normally, with no exception left for its caller and without an exit code of its own.
\<close>

theorem main_block_catches_both:
  assumes "use_pipeline G L w = (Inl e1, evs1, w1)"
      and "use_direct_model G L w1 = (Inl e2, evs2, w2)"
      and "isinstance_Exception e1"
      and "isinstance_Exception e2"
  shows "main_block G L w =
     (Inr (),
      Print ''LLM-Beispiel mit DeepSeek-R1-Distill-Llama-8B\<newline>'' # evs1
        @ [Print (''Fehler beim Pipeline-Ansatz: '' @ exn_str e1)]
        @ evs2
        @ [Print (''Fehler beim direkten Modell-Ansatz: '' @ exn_str e2)],
      w2)"
  using main_block_handled [OF assms(1) assms(2)] assms(3) assms(4)
  by simp

theorem main_block_catches_both_witness:
  "isinstance_Exception (Exn ''OSError'' True ''no such model'')
   \<and> isinstance_Exception (Exn ''RuntimeError'' True ''out of memory'')
   \<and> main_block stub_globals
     (table_env
        ((CallObj (PObj 0) [PStr ''text-generation'']
            [(''model'', PStr ''unsloth/DeepSeek-R1-Distill-Llama-8B'')],
          Inl (Exn ''OSError'' True ''no such model''))
         # (CallObj (PObj 6) [PStr ''unsloth/DeepSeek-R1-Distill-Llama-8B''] [],
            Inl (Exn ''RuntimeError'' True ''out of memory''))
         # stub_table)) ()
   = (Inr (),
      [Print ''LLM-Beispiel mit DeepSeek-R1-Distill-Llama-8B\<newline>'',
       Print ''=== Pipeline-Ansatz ==='',
       Op (CallObj (PObj 0) [PStr ''text-generation'']
             [(''model'', PStr ''unsloth/DeepSeek-R1-Distill-Llama-8B'')])
          (Inl (Exn ''OSError'' True ''no such model'')),
       Print ''Fehler beim Pipeline-Ansatz: no such model'',
       Print ''=== Direkter Modell-Ansatz ==='',
       Op (GetAttr (PObj 1) ''from_pretrained'') (Inr (PObj 4)),
       Op (CallObj (PObj 4) [PStr ''unsloth/DeepSeek-R1-Distill-Llama-8B''] []) (Inr (PObj 5)),
       Op (GetAttr (PObj 2) ''from_pretrained'') (Inr (PObj 6)),
       Op (CallObj (PObj 6) [PStr ''unsloth/DeepSeek-R1-Distill-Llama-8B''] [])
          (Inl (Exn ''RuntimeError'' True ''out of memory'')),
       Print ''Fehler beim direkten Modell-Ansatz: out of memory''],
      ())"
proof -
  let ?L = "table_env
        ((CallObj (PObj 0) [PStr ''text-generation'']
            [(''model'', PStr ''unsloth/DeepSeek-R1-Distill-Llama-8B'')],
          Inl (Exn ''OSError'' True ''no such model''))
         # (CallObj (PObj 6) [PStr ''unsloth/DeepSeek-R1-Distill-Llama-8B''] [],
            Inl (Exn ''RuntimeError'' True ''out of memory''))
         # stub_table)"
  have p: "use_pipeline stub_globals ?L () =
     (Inl (Exn ''OSError'' True ''no such model''),
      [Print ''=== Pipeline-Ansatz ==='',
       Op (CallObj (PObj 0) [PStr ''text-generation'']
             [(''model'', PStr ''unsloth/DeepSeek-R1-Distill-Llama-8B'')])
          (Inl (Exn ''OSError'' True ''no such model''))],
      ())"
    by (simp add: use_pipeline_def run_defs stub_globals_def table_env_def)
  have d: "use_direct_model stub_globals ?L () =
     (Inl (Exn ''RuntimeError'' True ''out of memory''),
      [Print ''=== Direkter Modell-Ansatz ==='',
       Op (GetAttr (PObj 1) ''from_pretrained'') (Inr (PObj 4)),
       Op (CallObj (PObj 4) [PStr ''unsloth/DeepSeek-R1-Distill-Llama-8B''] []) (Inr (PObj 5)),
       Op (GetAttr (PObj 2) ''from_pretrained'') (Inr (PObj 6)),
       Op (CallObj (PObj 6) [PStr ''unsloth/DeepSeek-R1-Distill-Llama-8B''] [])
          (Inl (Exn ''RuntimeError'' True ''out of memory''))],
      ())"
    by (simp add: use_direct_model_def run_defs stub_defs)
  have h1: "isinstance_Exception (Exn ''OSError'' True ''no such model'')"
    and h2: "isinstance_Exception (Exn ''RuntimeError'' True ''out of memory'')"
    by simp_all
  from main_block_catches_both [OF p d h1 h2] show ?thesis
    by simp
qed

subsection \<open>The module and its guard\<close>


text \<open>
  C9: when the file is imported as a module (\<^verbatim>\<open>__name__\<close> is not \<^verbatim>\<open>"__main__"\<close>), nothing is
  printed and neither runner is called: the events are operations only, at most four, and
  these are the imports of the file in its order (as far as they get: a failing import ends
  the module body); when the module body ends normally all four imports were done and
  nothing else.
\<close>

theorem import_as_module_runs_nothing:
  assumes "name \<noteq> ''__main__''"
      and "run_module L name argv environ w = (r, evs, w')"
  shows "stdout_text evs = []
    \<and> length evs \<le> 4
    \<and> length (performed evs) = length evs
    \<and> performed evs = take (length evs)
          [ImportFrom ''transformers'' ''pipeline'',
           ImportFrom ''transformers'' ''AutoTokenizer'',
           ImportFrom ''transformers'' ''AutoModelForCausalLM'',
           Import ''torch'']
    \<and> (r = Inr () \<longrightarrow> length evs = 4)"
proof -
  from assms have "and_then (perform L (ImportFrom ''transformers'' ''pipeline''))
     (\<lambda>p.
     and_then (perform L (ImportFrom ''transformers'' ''AutoTokenizer''))
     (\<lambda>t.
     and_then (perform L (ImportFrom ''transformers'' ''AutoModelForCausalLM''))
     (\<lambda>m.
     and_then (perform L (Import ''torch''))
     (\<lambda>_. ret ())))) w = (r, evs, w')"
    by (simp add: run_module_def)
  then show ?thesis
    by (elim and_then_performE) (simp_all add: ret_def)
qed

theorem import_as_module_runs_nothing_witness:
  "''improved_llm_example'' \<noteq> ''__main__''
   \<and> run_module (table_env stub_table) ''improved_llm_example'' [] [] () =
       (Inr (),
        [Op (ImportFrom ''transformers'' ''pipeline'') (Inr (PObj 0)),
         Op (ImportFrom ''transformers'' ''AutoTokenizer'') (Inr (PObj 1)),
         Op (ImportFrom ''transformers'' ''AutoModelForCausalLM'') (Inr (PObj 2)),
         Op (Import ''torch'') (Inr (PObj 12))],
        ())
   \<and> stdout_text
        [Op (ImportFrom ''transformers'' ''pipeline'') (Inr (PObj 0)),
         Op (ImportFrom ''transformers'' ''AutoTokenizer'') (Inr (PObj 1)),
         Op (ImportFrom ''transformers'' ''AutoModelForCausalLM'') (Inr (PObj 2)),
         Op (Import ''torch'') (Inr (PObj 12))] = []"
proof -
  have n: "''improved_llm_example'' \<noteq> ''__main__''" by simp
  have run: "run_module (table_env stub_table) ''improved_llm_example'' [] [] () =
       (Inr (),
        [Op (ImportFrom ''transformers'' ''pipeline'') (Inr (PObj 0)),
         Op (ImportFrom ''transformers'' ''AutoTokenizer'') (Inr (PObj 1)),
         Op (ImportFrom ''transformers'' ''AutoModelForCausalLM'') (Inr (PObj 2)),
         Op (Import ''torch'') (Inr (PObj 12))],
        ())"
    by (simp add: run_module_def run_defs ret_def table_env_def stub_table_def)
  from import_as_module_runs_nothing [OF n run] n run show ?thesis
    by simp
qed

subsection \<open>The pipeline runner\<close>

text \<open>
  C5: when the callable obtained from \<^verbatim>\<open>pipeline\<close> returns a list whose first element is a
  dictionary that maps \<^verbatim>\<open>'generated_text'\<close> to a text \<open>t\<close>, \<^verbatim>\<open>use_pipeline\<close> takes
  \<^verbatim>\<open>result[0]['generated_text']\<close> and prints exactly \<open>t\<close> (after the two headers and before
  the final empty lines), and returns normally.
\<close>

theorem use_pipeline_prints_generated_text:
  assumes "pipeline G = PObj g"
      and "respond L (CallObj (PObj g) [PStr ''text-generation'']
             [(''model'', PStr ''unsloth/DeepSeek-R1-Distill-Llama-8B'')]) w = (Inr (PObj p), w1)"
      and "respond L (CallObj (PObj p)
             [PList [PDict [(''role'', PStr ''user''), (''content'', PStr ''Who are you?'')]]]
             [(''max_length'', PInt 100), (''do_sample'', PBool True), (''temperature'', PFloat (7 / 10))]) w1
           = (Inr (PList (PDict d # rest)), w2)"
      and "map_of d ''generated_text'' = Some (PStr t)"
  shows "use_pipeline G L w =
     (Inr (),
      [Print ''=== Pipeline-Ansatz ==='',
       Op (CallObj (PObj g) [PStr ''text-generation'']
             [(''model'', PStr ''unsloth/DeepSeek-R1-Distill-Llama-8B'')]) (Inr (PObj p)),
       Op (CallObj (PObj p)
             [PList [PDict [(''role'', PStr ''user''), (''content'', PStr ''Who are you?'')]]]
             [(''max_length'', PInt 100), (''do_sample'', PBool True), (''temperature'', PFloat (7 / 10))])
          (Inr (PList (PDict d # rest))),
       Print ''Ergebnis:'',
       Op (GetItem (PList (PDict d # rest)) (KInt 0)) (Inr (PDict d)),
       Op (GetItem (PDict d) (KStr ''generated_text'')) (Inr (PStr t)),
       Print t,
       Print ''\<newline>''],
      w2)
    \<and> stdout_text (fst (snd (use_pipeline G L w))) =
        ''=== Pipeline-Ansatz ===\<newline>Ergebnis:\<newline>'' @ t @ ''\<newline>\<newline>\<newline>''"
  using assms
  by (simp add: use_pipeline_def run_defs)

theorem use_pipeline_prints_generated_text_witness:
  "pipeline stub_globals = PObj 0
   \<and> respond (table_env stub_table) (CallObj (PObj 0) [PStr ''text-generation'']
             [(''model'', PStr ''unsloth/DeepSeek-R1-Distill-Llama-8B'')]) () = (Inr (PObj 3), ())
   \<and> respond (table_env stub_table) (CallObj (PObj 3)
             [PList [PDict [(''role'', PStr ''user''), (''content'', PStr ''Who are you?'')]]]
             [(''max_length'', PInt 100), (''do_sample'', PBool True), (''temperature'', PFloat (7 / 10))]) ()
           = (Inr (PList (PDict [(''generated_text'', PStr ''A stub.'')] # [])), ())
   \<and> map_of [(''generated_text'', PStr ''A stub.'')] ''generated_text'' = Some (PStr ''A stub.'')
   \<and> stdout_text (fst (snd (use_pipeline stub_globals (table_env stub_table) ()))) =
        ''=== Pipeline-Ansatz ===\<newline>Ergebnis:\<newline>A stub.\<newline>\<newline>\<newline>''"
proof -
  have g: "pipeline stub_globals = PObj 0"
    by (simp add: stub_globals_def)
  have c1: "respond (table_env stub_table) (CallObj (PObj 0) [PStr ''text-generation'']
             [(''model'', PStr ''unsloth/DeepSeek-R1-Distill-Llama-8B'')]) () = (Inr (PObj 3), ())"
    by (simp add: table_env_def stub_table_def)
  have c2: "respond (table_env stub_table) (CallObj (PObj 3)
             [PList [PDict [(''role'', PStr ''user''), (''content'', PStr ''Who are you?'')]]]
             [(''max_length'', PInt 100), (''do_sample'', PBool True), (''temperature'', PFloat (7 / 10))]) ()
           = (Inr (PList (PDict [(''generated_text'', PStr ''A stub.'')] # [])), ())"
    by (simp add: table_env_def stub_table_def)
  have m: "map_of [(''generated_text'', PStr ''A stub.'')] ''generated_text'' = Some (PStr ''A stub.'')"
    by simp
  from use_pipeline_prints_generated_text [OF g c1 c2 m] g c1 c2 m show ?thesis
    by simp
qed

subsection \<open>The direct-model runner\<close>







subsection \<open>Both runners\<close>

text \<open>
  C7: neither runner recovers from an exception. In every run of \<^verbatim>\<open>use_pipeline\<close> or of
  \<^verbatim>\<open>use_direct_model\<close>, an exception with which an operation answers is the exception the
  runner raises, unchanged, and the failing operation is the last thing the runner does,
  apart from leaving the \<^verbatim>\<open>no_grad\<close> block when the failure is inside it.
\<close>

theorem runners_propagate_exceptions:
  assumes "use_pipeline G L w = (r, evs, w') \<or> use_direct_model G L w = (r, evs, w')"
      and "Op opn (Inl e) \<in> set evs"
  shows "r = Inl e \<and>
    (last evs = Op opn (Inl e) \<or> last evs = NoGradExit \<and> last (butlast evs) = Op opn (Inl e))"
proof -
  have p: "r = Inl e \<and> last evs = Op opn (Inl e)" if "use_pipeline G L w = (r, evs, w')"
    using that assms(2) unfolding use_pipeline_def Let_def
    by (elim stepE) auto
  have d: ?thesis if "use_direct_model G L w = (r, evs, w')"
    using that assms(2) unfolding use_direct_model_def Let_def
    by (elim stepE) auto
  from assms(1) p d show ?thesis by blast
qed

theorem runners_propagate_exceptions_witness:
  "use_direct_model stub_globals
     (table_env
        ((CallObj (PObj 10) [PObj 8]
            [(''max_length'', PInt 100), (''do_sample'', PBool True), (''temperature'', PFloat (7 / 10)),
             (''pad_token_id'', PInt 2)],
          Inl (Exn ''RuntimeError'' True ''out of memory'')) # stub_table)) ()
   = (Inl (Exn ''RuntimeError'' True ''out of memory''),
      take 10 stub_direct_events
        @ [Op (CallObj (PObj 10) [PObj 8]
                [(''max_length'', PInt 100), (''do_sample'', PBool True),
                 (''temperature'', PFloat (7 / 10)), (''pad_token_id'', PInt 2)])
              (Inl (Exn ''RuntimeError'' True ''out of memory'')),
           NoGradExit],
      ())
   \<and> Op (CallObj (PObj 10) [PObj 8]
            [(''max_length'', PInt 100), (''do_sample'', PBool True),
             (''temperature'', PFloat (7 / 10)), (''pad_token_id'', PInt 2)])
         (Inl (Exn ''RuntimeError'' True ''out of memory''))
       \<in> set (take 10 stub_direct_events
        @ [Op (CallObj (PObj 10) [PObj 8]
                [(''max_length'', PInt 100), (''do_sample'', PBool True),
                 (''temperature'', PFloat (7 / 10)), (''pad_token_id'', PInt 2)])
              (Inl (Exn ''RuntimeError'' True ''out of memory'')),
           NoGradExit])"
proof -
  let ?L = "table_env
        ((CallObj (PObj 10) [PObj 8]
            [(''max_length'', PInt 100), (''do_sample'', PBool True), (''temperature'', PFloat (7 / 10)),
             (''pad_token_id'', PInt 2)],
          Inl (Exn ''RuntimeError'' True ''out of memory'')) # stub_table)"
  let ?evs = "take 10 stub_direct_events
        @ [Op (CallObj (PObj 10) [PObj 8]
                [(''max_length'', PInt 100), (''do_sample'', PBool True),
                 (''temperature'', PFloat (7 / 10)), (''pad_token_id'', PInt 2)])
              (Inl (Exn ''RuntimeError'' True ''out of memory'')),
           NoGradExit]"
  have run: "use_direct_model stub_globals ?L () = (Inl (Exn ''RuntimeError'' True ''out of memory''), ?evs, ())"
    by (simp add: use_direct_model_def run_defs stub_defs stub_direct_events_def)
  have m: "Op (CallObj (PObj 10) [PObj 8]
            [(''max_length'', PInt 100), (''do_sample'', PBool True),
             (''temperature'', PFloat (7 / 10)), (''pad_token_id'', PInt 2)])
         (Inl (Exn ''RuntimeError'' True ''out of memory'')) \<in> set ?evs"
    by simp
  from runners_propagate_exceptions [OF disjI2 [OF run] m] run m show ?thesis
    by blast
qed

text \<open>
  C4: the model identifier is the same string in all three places. The call of \<^verbatim>\<open>pipeline\<close>
  in \<^verbatim>\<open>use_pipeline\<close> is always reached and names the model
  \<^verbatim>\<open>"unsloth/DeepSeek-R1-Distill-Llama-8B"\<close>; in \<^verbatim>\<open>use_direct_model\<close> the call of
  \<^verbatim>\<open>AutoTokenizer.from_pretrained\<close> and, when the tokenizer is loaded, the call of
  \<^verbatim>\<open>AutoModelForCausalLM.from_pretrained\<close> are given that same string, and nothing else.
\<close>

theorem runners_use_one_model_identifier:
  assumes "use_pipeline G L w = (r, evs, w')"
      and "use_direct_model G L v = (r', evs', v')"
  shows "(\<exists>a rest. evs = Print ''=== Pipeline-Ansatz ===''
            # Op (CallObj (pipeline G) [PStr ''text-generation'']
                   [(''model'', PStr ''unsloth/DeepSeek-R1-Distill-Llama-8B'')]) a # rest)
    \<and> (\<exists>a1 rest1. evs' = Print ''=== Direkter Modell-Ansatz ===''
            # Op (GetAttr (AutoTokenizer G) ''from_pretrained'') a1 # rest1
        \<and> (\<forall>load_tokenizer. a1 = Inr load_tokenizer \<longrightarrow>
             (\<exists>a2 rest2. rest1 =
                 Op (CallObj load_tokenizer [PStr ''unsloth/DeepSeek-R1-Distill-Llama-8B''] []) a2 # rest2
               \<and> (\<forall>tokenizer. a2 = Inr tokenizer \<longrightarrow>
                    (\<exists>a3 rest3. rest2 =
                        Op (GetAttr (AutoModelForCausalLM G) ''from_pretrained'') a3 # rest3
                      \<and> (\<forall>load_model. a3 = Inr load_model \<longrightarrow>
                           (\<exists>a4 rest4. rest3 =
                               Op (CallObj load_model [PStr ''unsloth/DeepSeek-R1-Distill-Llama-8B''] []) a4
                               # rest4)))))))"
proof -
  have p: "\<exists>a rest. evs = Print ''=== Pipeline-Ansatz ===''
            # Op (CallObj (pipeline G) [PStr ''text-generation'']
                   [(''model'', PStr ''unsloth/DeepSeek-R1-Distill-Llama-8B'')]) a # rest"
    using assms(1) unfolding use_pipeline_def Let_def
    by (elim and_then_printE and_then_performE) simp_all
  have d: "\<exists>a1 rest1. evs' = Print ''=== Direkter Modell-Ansatz ===''
            # Op (GetAttr (AutoTokenizer G) ''from_pretrained'') a1 # rest1
        \<and> (\<forall>load_tokenizer. a1 = Inr load_tokenizer \<longrightarrow>
             (\<exists>a2 rest2. rest1 =
                 Op (CallObj load_tokenizer [PStr ''unsloth/DeepSeek-R1-Distill-Llama-8B''] []) a2 # rest2
               \<and> (\<forall>tokenizer. a2 = Inr tokenizer \<longrightarrow>
                    (\<exists>a3 rest3. rest2 =
                        Op (GetAttr (AutoModelForCausalLM G) ''from_pretrained'') a3 # rest3
                      \<and> (\<forall>load_model. a3 = Inr load_model \<longrightarrow>
                           (\<exists>a4 rest4. rest3 =
                               Op (CallObj load_model [PStr ''unsloth/DeepSeek-R1-Distill-Llama-8B''] []) a4
                               # rest4))))))"
    using assms(2) unfolding use_direct_model_def Let_def
    by (elim and_then_printE and_then_performE) simp_all
  from p d show ?thesis by (rule conjI)
qed

theorem runners_use_one_model_identifier_witness:
  "use_pipeline stub_globals (table_env stub_table) () = (Inr (), stub_pipeline_events, ())
   \<and> use_direct_model stub_globals (table_env stub_table) () = (Inr (), stub_direct_events, ())
   \<and> (\<exists>a rest. stub_pipeline_events = Print ''=== Pipeline-Ansatz ===''
            # Op (CallObj (pipeline stub_globals) [PStr ''text-generation'']
                   [(''model'', PStr ''unsloth/DeepSeek-R1-Distill-Llama-8B'')]) a # rest)"
  using runners_use_one_model_identifier [OF stub_use_pipeline stub_use_direct_model]
    stub_use_pipeline stub_use_direct_model
  by blast

end
